theory Spec2Isabelle
  imports Main
begin

section \<open>Errors\<close>

text \<open>
  A Go \<open>error\<close> value is modelled by its message. A run-time panic (the nil pointer
  dereference of \<open>upstreamModFile.Go.Version\<close> or \<open>upstreamModFile.Module.Mod.Path\<close>
  when the upstream go.mod has no such directive) is a value of its own.
\<close>

datatype error = Error string | Panic string

fun message :: "error \<Rightarrow> string" where
  "message (Error m) = m"
| "message (Panic m) = m"

section \<open>The go.mod data model (golang.org/x/mod/modfile, as Rebase reads and builds it)\<close>

text \<open>
  Only the fields that \<open>pkg/dep/go_mod.go\<close> reads or sets are carried. The pointers
  \<open>File.Module\<close>, \<open>File.Go\<close> and \<open>File.Toolchain\<close> are options: \<open>None\<close> is the nil
  pointer of a go.mod without that directive. The syntax tree (layout, comments, grouping of
  lines into blocks) is not part of the model.
\<close>

record module_Version =
  Path :: string
  Version :: string

record modfile_Require =
  Mod :: module_Version
  Indirect :: bool

record modfile_Exclude =
  ExcludeMod :: module_Version

record modfile_Replace =
  Old :: module_Version
  New :: module_Version

record modfile_Retract =
  Low :: string
  High :: string
  Rationale :: string

record modfile_File =
  Module :: "module_Version option"
  Go :: "string option"
  Toolchain :: "string option"
  Require :: "modfile_Require list"
  Exclude :: "modfile_Exclude list"
  Replace :: "modfile_Replace list"
  Retract :: "modfile_Retract list"

text \<open>\<open>&modfile.File{Syntax: &modfile.FileSyntax{}}\<close>: a file without any directive.\<close>

definition newModFile :: modfile_File where
  "newModFile = \<lparr>Module = None, Go = None, Toolchain = None, Require = [],
                 Exclude = [], Replace = [], Retract = []\<rparr>"

text \<open>
  The mutators of \<open>modfile.File\<close> that Rebase calls belong to golang.org/x/mod, outside the
  repository. They are modelled by what they do to the directives of the file. The statement
  setters set their field; \<open>AddNewRequire\<close> and \<open>AddRetract\<close> append one entry built
  from their arguments. Rebase drops the error results of these calls.
\<close>

definition AddGoStmt :: "string \<Rightarrow> modfile_File \<Rightarrow> modfile_File" where
  "AddGoStmt version f = f\<lparr>Go := Some version\<rparr>"

definition AddModuleStmt :: "string \<Rightarrow> modfile_File \<Rightarrow> modfile_File" where
  "AddModuleStmt path f = f\<lparr>Module := Some \<lparr>Path = path, Version = []\<rparr>\<rparr>"

definition AddToolchainStmt :: "string \<Rightarrow> modfile_File \<Rightarrow> modfile_File" where
  "AddToolchainStmt name f = f\<lparr>Toolchain := Some name\<rparr>"

definition AddNewRequire :: "string \<Rightarrow> string \<Rightarrow> bool \<Rightarrow> modfile_File \<Rightarrow> modfile_File" where
  "AddNewRequire path vers indirect f =
     f\<lparr>Require := Require f @ [\<lparr>Mod = \<lparr>Path = path, Version = vers\<rparr>, Indirect = indirect\<rparr>]\<rparr>"

text \<open>
  \<open>AddExclude\<close> returns without adding when the file already excludes the same path at
  the same version, and appends the pair otherwise.
\<close>

definition AddExclude :: "string \<Rightarrow> string \<Rightarrow> modfile_File \<Rightarrow> modfile_File" where
  "AddExclude path vers f =
     (if list_ex (\<lambda>x. Path (ExcludeMod x) = path \<and> Version (ExcludeMod x) = vers) (Exclude f)
      then f
      else f\<lparr>Exclude := Exclude f @ [\<lparr>ExcludeMod = \<lparr>Path = path, Version = vers\<rparr>\<rparr>]\<rparr>)"

text \<open>
  \<open>AddReplace\<close> walks the replacements of the file. An entry matches when it has the old
  path of the call and the old version of the call is empty or is the entry's. The first
  match is rewritten to the replacement of the call (its line then reads as the arguments of
  the call do), every further match is removed, and when nothing matched the replacement is
  appended. The library blanks a removed entry and \<open>Cleanup\<close> drops it; the model drops
  it at once. The flag of the walk says whether the replacement is still to be added.
\<close>

fun addReplace_walk ::
  "module_Version \<Rightarrow> module_Version \<Rightarrow> bool \<Rightarrow> modfile_Replace list \<Rightarrow> modfile_Replace list \<times> bool" where
  "addReplace_walk old new need [] = ([], need)"
| "addReplace_walk old new need (r # rest) =
     (if Path (Old r) = Path old \<and> (Version old = [] \<or> Version (Old r) = Version old)
      then (if need
            then (case addReplace_walk old new False rest of
                    (rs, need') \<Rightarrow> (\<lparr>Old = old, New = new\<rparr> # rs, need'))
            else addReplace_walk old new False rest)
      else (case addReplace_walk old new need rest of
              (rs, need') \<Rightarrow> (r # rs, need')))"

definition addReplace :: "module_Version \<Rightarrow> module_Version \<Rightarrow> modfile_Replace list \<Rightarrow> modfile_Replace list" where
  "addReplace old new replace =
     (case addReplace_walk old new True replace of
        (rs, need) \<Rightarrow> if need then rs @ [\<lparr>Old = old, New = new\<rparr>] else rs)"

definition AddReplace :: "string \<Rightarrow> string \<Rightarrow> string \<Rightarrow> string \<Rightarrow> modfile_File \<Rightarrow> modfile_File" where
  "AddReplace oldPath oldVers newPath newVers f =
     f\<lparr>Replace := addReplace \<lparr>Path = oldPath, Version = oldVers\<rparr>
                             \<lparr>Path = newPath, Version = newVers\<rparr> (Replace f)\<rparr>"

definition AddRetract :: "string \<Rightarrow> string \<Rightarrow> string \<Rightarrow> modfile_File \<Rightarrow> modfile_File" where
  "AddRetract low high rationale f =
     f\<lparr>Retract := Retract f @ [\<lparr>Low = low, High = high, Rationale = rationale\<rparr>]\<rparr>"

text \<open>
  \<open>SetRequireSeparateIndirect(req)\<close> updates the requirements of the file to those of
  \<open>req\<close> and regroups the require lines of the syntax tree into a direct and an indirect
  block. The requirement it needs for a path is the last entry of \<open>req\<close> with that path.
  It walks the requirements of the file: an entry whose path \<open>req\<close> does not have, or
  whose path an earlier entry already has, is removed (blanked, for \<open>Cleanup\<close> to drop;
  the model drops it at once); any other entry stays in its place with the version and the
  indirect flag of the needed requirement. Needed requirements on paths the file did not
  have are added at the end, by the library in the order of a Go map, in the model in the
  order of \<open>req\<close>. Rebase passes the file's own list, which has none of those.
\<close>

definition need_of :: "modfile_Require list \<Rightarrow> string \<Rightarrow> modfile_Require option" where
  "need_of req path = find (\<lambda>r. Path (Mod r) = path) (rev req)"

fun separate_walk :: "modfile_Require list \<Rightarrow> string list \<Rightarrow> modfile_Require list \<Rightarrow> modfile_Require list" where
  "separate_walk req seen [] = []"
| "separate_walk req seen (r # rest) =
     (case need_of req (Path (Mod r)) of
        None \<Rightarrow> separate_walk req seen rest
      | Some n \<Rightarrow>
          if Path (Mod r) \<in> set seen then separate_walk req seen rest
          else \<lparr>Mod = \<lparr>Path = Path (Mod r), Version = Version (Mod n)\<rparr>, Indirect = Indirect n\<rparr>
               # separate_walk req (Path (Mod r) # seen) rest)"

definition SetRequireSeparateIndirect :: "modfile_Require list \<Rightarrow> modfile_File \<Rightarrow> modfile_File" where
  "SetRequireSeparateIndirect req f =
     f\<lparr>Require := separate_walk req [] (Require f)
                   @ separate_walk req (map (\<lambda>r. Path (Mod r)) (Require f)) req\<rparr>"

section \<open>Rebase: the merge of the requirements\<close>

text \<open>
  \<open>semver.Compare\<close> is a parameter \<open>Compare\<close> of the model: a negative, zero or positive
  integer for lower, equal or higher precedence of its first argument.

  Lines 90--96: the version of the merged requirement.
\<close>

definition targetVersion :: "(string \<Rightarrow> string \<Rightarrow> int) \<Rightarrow> modfile_Require \<Rightarrow> modfile_Require \<Rightarrow> string" where
  "targetVersion Compare downstreamPkg upstreamPkg =
     (if Compare (Version (Mod downstreamPkg)) (Version (Mod upstreamPkg)) > 0
      then Version (Mod downstreamPkg)
      else Version (Mod upstreamPkg))"

text \<open>Lines 88--100: the inner loop over the upstream requirements, for one downstream entry.\<close>

fun upstream_loop ::
  "(string \<Rightarrow> string \<Rightarrow> int) \<Rightarrow> modfile_Require \<Rightarrow> modfile_Require list \<Rightarrow> modfile_File \<Rightarrow> modfile_File" where
  "upstream_loop Compare downstreamPkg [] f = f"
| "upstream_loop Compare downstreamPkg (upstreamPkg # rest) f =
     upstream_loop Compare downstreamPkg rest
       (if Path (Mod upstreamPkg) = Path (Mod downstreamPkg)
        then AddNewRequire (Path (Mod upstreamPkg))
               (targetVersion Compare downstreamPkg upstreamPkg) (Indirect upstreamPkg) f
        else f)"

text \<open>Lines 87--101: the outer loop over the downstream requirements.\<close>

fun downstream_loop ::
  "(string \<Rightarrow> string \<Rightarrow> int) \<Rightarrow> modfile_Require list \<Rightarrow> modfile_Require list \<Rightarrow> modfile_File \<Rightarrow> modfile_File" where
  "downstream_loop Compare upstreamRequire [] f = f"
| "downstream_loop Compare upstreamRequire (downstreamPkg # rest) f =
     downstream_loop Compare upstreamRequire rest
       (upstream_loop Compare downstreamPkg upstreamRequire f)"

text \<open>Lines 105--115: the three copy loops over the upstream directives.\<close>

fun exclude_loop :: "modfile_Exclude list \<Rightarrow> modfile_File \<Rightarrow> modfile_File" where
  "exclude_loop [] f = f"
| "exclude_loop (upstreamPkg # rest) f =
     exclude_loop rest
       (AddExclude (Path (ExcludeMod upstreamPkg)) (Version (ExcludeMod upstreamPkg)) f)"

fun replace_loop :: "modfile_Replace list \<Rightarrow> modfile_File \<Rightarrow> modfile_File" where
  "replace_loop [] f = f"
| "replace_loop (upstreamPkg # rest) f =
     replace_loop rest
       (AddReplace (Path (Old upstreamPkg)) (Version (Old upstreamPkg))
                   (Path (New upstreamPkg)) (Version (New upstreamPkg)) f)"

fun retract_loop :: "modfile_Retract list \<Rightarrow> modfile_File \<Rightarrow> modfile_File" where
  "retract_loop [] f = f"
| "retract_loop (upstreamPkg # rest) f =
     retract_loop rest
       (AddRetract (Low upstreamPkg) (High upstreamPkg) (Rationale upstreamPkg) f)"

text \<open>
  Lines 79--115: the manifest Rebase builds in memory from the two parsed files, before
  \<open>Cleanup\<close> and \<open>Format\<close>. The two dereferences of lines 80 and 81 have no nil check;
  the toolchain has one (line 83).
\<close>

definition Rebase_merge ::
  "(string \<Rightarrow> string \<Rightarrow> int) \<Rightarrow> modfile_File \<Rightarrow> modfile_File \<Rightarrow> error + modfile_File" where
  "Rebase_merge Compare upstreamModFile downstreamModFile =
     (case Go upstreamModFile of
        None \<Rightarrow> Inl (Panic ''invalid memory address or nil pointer dereference'')
      | Some goVersion \<Rightarrow>
     (case Module upstreamModFile of
        None \<Rightarrow> Inl (Panic ''invalid memory address or nil pointer dereference'')
      | Some upstreamModule \<Rightarrow>
        let f = AddGoStmt goVersion newModFile;
            f = AddModuleStmt (Path upstreamModule) f;
            f = (case Toolchain upstreamModFile of
                   None \<Rightarrow> f
                 | Some name \<Rightarrow> if name \<noteq> [] then AddToolchainStmt name f else f);
            f = downstream_loop Compare (Require upstreamModFile) (Require downstreamModFile) f;
            f = SetRequireSeparateIndirect (Require f) f;
            f = exclude_loop (Exclude upstreamModFile) f;
            f = replace_loop (Replace upstreamModFile) f;
            f = retract_loop (Retract upstreamModFile) f
        in Inr f))"

section \<open>Rebase: files in, file out\<close>

text \<open>
  The file system is a map from paths to contents. \<open>os.ReadFile\<close> fails on a path that
  holds no file.
\<close>

type_synonym filesystem = "string \<rightharpoonup> string"

definition os_ReadFile :: "filesystem \<Rightarrow> string \<Rightarrow> error + string" where
  "os_ReadFile fs path =
     (case fs path of
        None \<Rightarrow> Inl (Error (''open '' @ path @ '': no such file or directory''))
      | Some content \<Rightarrow> Inr content)"

text \<open>
  Lines 56--63. The parser is a parameter \<open>Parse\<close>, standing for
  \<open>\<lambda>path content. modfile.Parse(filepath.Base(path), content, nil)\<close>.
\<close>

definition loadModFile ::
  "(string \<Rightarrow> string \<Rightarrow> error + modfile_File) \<Rightarrow> filesystem \<Rightarrow> string \<Rightarrow> error + modfile_File" where
  "loadModFile Parse fs path =
     (case os_ReadFile fs path of
        Inl err \<Rightarrow> Inl (Error (''reading '' @ path @ '': '' @ message err))
      | Inr content \<Rightarrow> Parse path content)"

text \<open>
  \<open>os.WriteFile(name, data, perm)\<close> opens the file itself, truncating it, and writes the
  data into it; by its documentation a failure mid-operation can leave the file partially
  written. What happens to one call is a parameter of the model: it completes, the open
  fails with an error (the file is untouched), or the write fails with an error after
  \<open>k\<close> bytes.
\<close>

datatype write_event = Completes | OpenFails error | WriteFailsAfter nat error

definition os_WriteFile ::
  "write_event \<Rightarrow> filesystem \<Rightarrow> string \<Rightarrow> string \<Rightarrow> error option \<times> filesystem" where
  "os_WriteFile ev fs name data =
     (case ev of
        Completes \<Rightarrow> (None, fs(name \<mapsto> data))
      | OpenFails err \<Rightarrow> (Some err, fs)
      | WriteFailsAfter k err \<Rightarrow> (Some err, fs(name \<mapsto> take k data)))"

text \<open>
  Lines 68--129. \<open>Cleanup\<close> and \<open>Format\<close> of golang.org/x/mod/modfile are parameters.
  The result is the returned error (\<open>None\<close> is nil; a panic is returned as \<open>Panic\<close>) and
  the file system Rebase leaves behind.
\<close>

definition Rebase ::
  "(string \<Rightarrow> string \<Rightarrow> error + modfile_File) \<Rightarrow> (string \<Rightarrow> string \<Rightarrow> int) \<Rightarrow>
   (modfile_File \<Rightarrow> modfile_File) \<Rightarrow> (modfile_File \<Rightarrow> error + string) \<Rightarrow> write_event \<Rightarrow>
   filesystem \<Rightarrow> string \<Rightarrow> string \<Rightarrow> string \<Rightarrow> error option \<times> filesystem" where
  "Rebase Parse Compare Cleanup Format ev fs upstreamFile downstreamFile outputFile =
     (case loadModFile Parse fs upstreamFile of
        Inl err \<Rightarrow> (Some (Error (''loading upstream go.mod file: '' @ message err)), fs)
      | Inr upstreamModFile \<Rightarrow>
     (case loadModFile Parse fs downstreamFile of
        Inl err \<Rightarrow> (Some (Error (''loading downstream go.mod file: '' @ message err)), fs)
      | Inr downstreamModFile \<Rightarrow>
     (case Rebase_merge Compare upstreamModFile downstreamModFile of
        Inl p \<Rightarrow> (Some p, fs)
      | Inr newFile \<Rightarrow>
     (case Format (Cleanup newFile) of
        Inl err \<Rightarrow> (Some (Error (''formatting rebased go.mod file: '' @ message err)), fs)
      | Inr payload \<Rightarrow>
     (case os_WriteFile ev fs outputFile payload of
        (Some err, fs') \<Rightarrow> (Some (Error (''writing rebased go.mod file: '' @ message err)), fs')
      | (None, fs') \<Rightarrow> (None, fs'))))))"

section \<open>UpdateChecksums\<close>

text \<open>
  \<open>fmt.Fprintln(outFile, line)\<close> appends the line and a newline; the result of the call
  is dropped by the source. Lines 152--154 and 161--163 print a list of lines in order.
\<close>

definition Fprintln :: "string \<Rightarrow> string \<Rightarrow> string" where
  "Fprintln outFile line = outFile @ line @ [CHR 0x0A]"

fun print_lines :: "string list \<Rightarrow> string \<Rightarrow> string" where
  "print_lines [] outFile = outFile"
| "print_lines (line # rest) outFile = print_lines rest (Fprintln outFile line)"

text \<open>
  Lines 146--164. \<open>sumdbClient.Lookup\<close> is a parameter \<open>Lookup\<close>: the answer of the
  checksum database to a module path and a version, an error or the list of lines. The
  result is the returned error and the text written to the output file.
\<close>

fun checksum_loop ::
  "(string \<Rightarrow> string \<Rightarrow> error + string list) \<Rightarrow> modfile_Require list \<Rightarrow> string \<Rightarrow> error option \<times> string" where
  "checksum_loop Lookup [] outFile = (None, outFile)"
| "checksum_loop Lookup (originPkg # rest) outFile =
     (case Lookup (Path (Mod originPkg)) (Version (Mod originPkg)) of
        Inl err \<Rightarrow>
          (Some (Error (''looking up '' @ Path (Mod originPkg) @ ''/'' @ Version (Mod originPkg)
                         @ '': '' @ message err)), outFile)
      | Inr lines \<Rightarrow>
          let outFile = print_lines lines outFile in
          (case Lookup (Path (Mod originPkg)) (Version (Mod originPkg) @ ''/go.mod'') of
             Inl err \<Rightarrow>
               (Some (Error (''looking up '' @ Path (Mod originPkg) @ ''/'' @ Version (Mod originPkg)
                              @ ''/go.mod: '' @ message err)), outFile)
           | Inr lines \<Rightarrow> checksum_loop Lookup rest (print_lines lines outFile)))"

text \<open>
  Lines 133--167. \<open>os.Create\<close> truncates or creates the output file; the error it
  returns, if any, is the parameter \<open>create_err\<close>.
\<close>

definition UpdateChecksums ::
  "(string \<Rightarrow> string \<Rightarrow> error + modfile_File) \<Rightarrow> (string \<Rightarrow> string \<Rightarrow> error + string list) \<Rightarrow>
   error option \<Rightarrow> filesystem \<Rightarrow> string \<Rightarrow> string \<Rightarrow> error option \<times> filesystem" where
  "UpdateChecksums Parse Lookup create_err fs lockFile outputFile =
     (case loadModFile Parse fs lockFile of
        Inl err \<Rightarrow> (Some (Error (''while loading the lockfile: '' @ message err)), fs)
      | Inr originModFile \<Rightarrow>
          (case create_err of
             Some err \<Rightarrow> (Some (Error (''while opening the output file: '' @ message err)), fs)
           | None \<Rightarrow>
               (case checksum_loop Lookup (Require originModFile) [] of
                  (err, outFile) \<Rightarrow> (err, fs(outputFile \<mapsto> outFile)))))"

section \<open>ReadRemote\<close>

text \<open>
  \<open>strings.Index(s, substr)\<close>: the index of the first instance of \<open>substr\<close> in \<open>s\<close>, or
  \<open>-1\<close> when there is none.
\<close>

fun strings_Index :: "string \<Rightarrow> string \<Rightarrow> int" where
  "strings_Index [] substr = (if substr = [] then 0 else -1)"
| "strings_Index (c # s) substr =
     (if take (length substr) (c # s) = substr then 0
      else (let i = strings_Index s substr in if i < 0 then -1 else i + 1))"

text \<open>Lines 213--217: the URL of the request.\<close>

definition ReadRemote_target :: "string \<Rightarrow> string" where
  "ReadRemote_target path =
     (let name = ''sum.golang.org+033de0ae+Ac4zctda0e5eza+HJyk9SxEdh+s3Ux18htTTAD8OuAn8'';
          i = strings_Index name ''+'';
          name = (if i \<ge> 0 then take (nat i) name else name)
      in ''https://'' @ name @ path)"

text \<open>
  A response body is a reader: the bytes it delivers, and the error it reports instead of
  the end of the stream once they are delivered, if any. \<open>io.LimitReader(r, n)\<close> reports
  the end of the stream after \<open>n\<close> bytes without reading further; \<open>ioutil.ReadAll\<close>
  reads to the end of the stream or to the first error.
\<close>

record io_Reader =
  bytes :: string
  failure :: "error option"

definition io_LimitReader :: "io_Reader \<Rightarrow> nat \<Rightarrow> io_Reader" where
  "io_LimitReader r n =
     \<lparr>bytes = take n (bytes r),
      failure = (if n \<le> length (bytes r) then None else failure r)\<rparr>"

definition ioutil_ReadAll :: "io_Reader \<Rightarrow> error + string" where
  "ioutil_ReadAll r = (case failure r of None \<Rightarrow> Inr (bytes r) | Some err \<Rightarrow> Inl err)"

record http_Response =
  StatusCode :: int
  Status :: string
  Body :: io_Reader

text \<open>Lines 212--236. \<open>http.Get\<close> is a parameter: an error or the response to a URL.\<close>

definition ReadRemote :: "(string \<Rightarrow> error + http_Response) \<Rightarrow> string \<Rightarrow> error + string" where
  "ReadRemote http_Get path =
     (let target = ReadRemote_target path in
      case http_Get target of
        Inl err \<Rightarrow> Inl err
      | Inr resp \<Rightarrow>
          if StatusCode resp \<noteq> 200
          then Inl (Error (''GET '' @ target @ '': '' @ Status resp))
          else (case ioutil_ReadAll (io_LimitReader (Body resp) (push_bit 20 1)) of
                  Inl err \<Rightarrow> Inl err
                | Inr data \<Rightarrow> Inr data))"

section \<open>What the loops compute\<close>

text \<open>
  The requirement Rebase adds for a downstream entry \<open>d\<close> and an upstream entry \<open>u\<close> of
  the same path, the test of line 89, and the list the two nested loops add in all.
\<close>

definition merged_entry ::
  "(string \<Rightarrow> string \<Rightarrow> int) \<Rightarrow> modfile_Require \<Rightarrow> modfile_Require \<Rightarrow> modfile_Require" where
  "merged_entry Compare d u =
     \<lparr>Mod = \<lparr>Path = Path (Mod u), Version = targetVersion Compare d u\<rparr>, Indirect = Indirect u\<rparr>"

definition same_path :: "modfile_Require \<Rightarrow> modfile_Require \<Rightarrow> bool" where
  "same_path d u = (Path (Mod u) = Path (Mod d))"

definition merged_requires ::
  "(string \<Rightarrow> string \<Rightarrow> int) \<Rightarrow> modfile_Require list \<Rightarrow> modfile_Require list \<Rightarrow> modfile_Require list" where
  "merged_requires Compare us ds =
     concat (map (\<lambda>d. map (merged_entry Compare d) (filter (same_path d) us)) ds)"

definition merged_toolchain :: "string option \<Rightarrow> string option" where
  "merged_toolchain t =
     (case t of None \<Rightarrow> None | Some name \<Rightarrow> if name \<noteq> [] then Some name else None)"

text \<open>
  The requirements left by \<open>SetRequireSeparateIndirect\<close> called on a file with its own
  list; the excludes and the replacements after the copy loops, from the lists they start
  with.
\<close>

definition separated :: "modfile_Require list \<Rightarrow> modfile_Require list" where
  "separated rs = separate_walk rs [] rs"

fun added_excludes :: "modfile_Exclude list \<Rightarrow> modfile_Exclude list \<Rightarrow> modfile_Exclude list" where
  "added_excludes ex [] = ex"
| "added_excludes ex (x # xs) = added_excludes (if x \<in> set ex then ex else ex @ [x]) xs"

fun added_replaces :: "modfile_Replace list \<Rightarrow> modfile_Replace list \<Rightarrow> modfile_Replace list" where
  "added_replaces rs [] = rs"
| "added_replaces rs (x # xs) = added_replaces (addReplace (Old x) (New x) rs) xs"



text \<open>The set of dependency paths of a requirement list.\<close>

definition dependency_paths :: "modfile_Require list \<Rightarrow> string set" where
  "dependency_paths rs = set (map (\<lambda>r. Path (Mod r)) rs)"

text \<open>
  The text of a list of lines as \<open>Fprintln\<close> writes them; the lines the database returns
  for a lookup (none when it fails); the text of one requirement, the lines for the module
  first and the lines for its go.mod second; and whether both lookups of a requirement
  succeed.
\<close>

definition text_of :: "string list \<Rightarrow> string" where
  "text_of lines = concat (map (\<lambda>line. line @ [CHR 0x0A]) lines)"

definition lines_of :: "(string \<Rightarrow> string \<Rightarrow> error + string list) \<Rightarrow> string \<Rightarrow> string \<Rightarrow> string list" where
  "lines_of Lookup path vers = (case Lookup path vers of Inl err \<Rightarrow> [] | Inr lines \<Rightarrow> lines)"

definition entry_text :: "(string \<Rightarrow> string \<Rightarrow> error + string list) \<Rightarrow> modfile_Require \<Rightarrow> string" where
  "entry_text Lookup r =
     text_of (lines_of Lookup (Path (Mod r)) (Version (Mod r)))
     @ text_of (lines_of Lookup (Path (Mod r)) (Version (Mod r) @ ''/go.mod''))"

definition lookups_succeed :: "(string \<Rightarrow> string \<Rightarrow> error + string list) \<Rightarrow> modfile_Require \<Rightarrow> bool" where
  "lookups_succeed Lookup r =
     (\<not> isl (Lookup (Path (Mod r)) (Version (Mod r)))
      \<and> \<not> isl (Lookup (Path (Mod r)) (Version (Mod r) @ ''/go.mod'')))"

section \<open>Example inputs\<close>

text \<open>
  The example of the specification: upstream requires A at v1.2.0 and B at v2.0.0,
  downstream requires A at v1.3.0 and C at v1.0.0.
\<close>

definition example_upstream :: modfile_File where
  "example_upstream =
     \<lparr>Module = Some \<lparr>Path = ''example.com/m'', Version = []\<rparr>,
      Go = Some ''1.21'',
      Toolchain = Some ''go1.21.5'',
      Require = [\<lparr>Mod = \<lparr>Path = ''A'', Version = ''v1.2.0''\<rparr>, Indirect = True\<rparr>,
                 \<lparr>Mod = \<lparr>Path = ''B'', Version = ''v2.0.0''\<rparr>, Indirect = False\<rparr>],
      Exclude = [\<lparr>ExcludeMod = \<lparr>Path = ''E'', Version = ''v0.1.0''\<rparr>\<rparr>],
      Replace = [\<lparr>Old = \<lparr>Path = ''B'', Version = []\<rparr>, New = \<lparr>Path = ''../b'', Version = []\<rparr>\<rparr>],
      Retract = [\<lparr>Low = ''v0.9.0'', High = ''v0.9.5'', Rationale = ''broken''\<rparr>]\<rparr>"

definition example_downstream :: modfile_File where
  "example_downstream =
     \<lparr>Module = Some \<lparr>Path = ''example.com/fork'', Version = []\<rparr>,
      Go = Some ''1.22'',
      Toolchain = None,
      Require = [\<lparr>Mod = \<lparr>Path = ''A'', Version = ''v1.3.0''\<rparr>, Indirect = False\<rparr>,
                 \<lparr>Mod = \<lparr>Path = ''C'', Version = ''v1.0.0''\<rparr>, Indirect = False\<rparr>],
      Exclude = [],
      Replace = [],
      Retract = []\<rparr>"

text \<open>The same downstream requirements under another identity and with directives of its own.\<close>

definition example_downstream_variant :: modfile_File where
  "example_downstream_variant =
     example_downstream
       \<lparr>Module := Some \<lparr>Path = ''example.org/other'', Version = []\<rparr>,
        Exclude := [\<lparr>ExcludeMod = \<lparr>Path = ''X'', Version = ''v9.9.9''\<rparr>\<rparr>],
        Replace := [\<lparr>Old = \<lparr>Path = ''A'', Version = []\<rparr>, New = \<lparr>Path = ''../a'', Version = []\<rparr>\<rparr>],
        Retract := [\<lparr>Low = ''v1.0.0'', High = ''v1.0.0'', Rationale = []\<rparr>]\<rparr>"


text \<open>The precedence of the two versions of A, as \<open>semver.Compare\<close> orders them.\<close>

definition example_Compare :: "string \<Rightarrow> string \<Rightarrow> int" where
  "example_Compare v w =
     (if v = ''v1.3.0'' \<and> w = ''v1.2.0'' then 1
      else if v = ''v1.2.0'' \<and> w = ''v1.3.0'' then - 1
      else 0)"

text \<open>
  A file system with the two manifests and an older output file, and stand-ins for the
  parser, the cleanup pass and the serializer (which prints the module line only).
\<close>

definition example_fs :: filesystem where
  "example_fs =
     [''upstream/go.mod'' \<mapsto> ''upstream text'',
      ''downstream/go.mod'' \<mapsto> ''downstream text'',
      ''go.mod.local'' \<mapsto> ''previous text'']"

definition example_Parse :: "string \<Rightarrow> string \<Rightarrow> error + modfile_File" where
  "example_Parse path content =
     (if content = ''upstream text'' then Inr example_upstream
      else if content = ''downstream text'' then Inr example_downstream
      else Inl (Error (path @ '': malformed'')))"

definition example_Cleanup :: "modfile_File \<Rightarrow> modfile_File" where
  "example_Cleanup f = f"

definition example_Format :: "modfile_File \<Rightarrow> error + string" where
  "example_Format f =
     Inr (''module '' @ (case Module f of None \<Rightarrow> [] | Some m \<Rightarrow> Path m) @ [CHR 0x0A])"

text \<open>
  A lock file with three requirements and a checksum database that has no answer for the
  second one; and a database that answers every lookup with one line.
\<close>

definition example_lock :: modfile_File where
  "example_lock =
     \<lparr>Module = Some \<lparr>Path = ''example.com/m'', Version = []\<rparr>,
      Go = Some ''1.21'',
      Toolchain = None,
      Require = [\<lparr>Mod = \<lparr>Path = ''a'', Version = ''v1.0.0''\<rparr>, Indirect = False\<rparr>,
                 \<lparr>Mod = \<lparr>Path = ''b'', Version = ''v1.0.0''\<rparr>, Indirect = False\<rparr>,
                 \<lparr>Mod = \<lparr>Path = ''c'', Version = ''v1.0.0''\<rparr>, Indirect = False\<rparr>],
      Exclude = [],
      Replace = [],
      Retract = []\<rparr>"

definition example_lock_Parse :: "string \<Rightarrow> string \<Rightarrow> error + modfile_File" where
  "example_lock_Parse path content = Inr example_lock"

definition example_Lookup :: "string \<Rightarrow> string \<Rightarrow> error + string list" where
  "example_Lookup path vers =
     (if path = ''b'' then Inl (Error ''404 Not Found'')
      else Inr [path @ '' '' @ vers @ '' h1:0000''])"

definition example_Lookup_all :: "string \<Rightarrow> string \<Rightarrow> error + string list" where
  "example_Lookup_all path vers = Inr [path @ '' '' @ vers @ '' h1:0000'']"

text \<open>
  What an atomic write would guarantee: after the call the output path holds what it held
  before, or the complete payload.
\<close>

definition output_intact :: "filesystem \<Rightarrow> filesystem \<Rightarrow> string \<Rightarrow> string \<Rightarrow> bool" where
  "output_intact fs fs' outputFile payload =
     (fs' outputFile = fs outputFile \<or> fs' outputFile = Some payload)"

text \<open>
  Responses of the log server for the examples: no connection, a missing page, and a page
  of one byte more than a mebibyte.
\<close>

definition example_unreachable :: "string \<Rightarrow> error + http_Response" where
  "example_unreachable url = Inl (Error ''dial tcp: connection refused'')"

definition example_not_found :: "string \<Rightarrow> error + http_Response" where
  "example_not_found url =
     Inr \<lparr>StatusCode = 404, Status = ''404 Not Found'',
          Body = \<lparr>bytes = ''not found'', failure = None\<rparr>\<rparr>"

definition example_oversized :: "string \<Rightarrow> error + http_Response" where
  "example_oversized url =
     Inr \<lparr>StatusCode = 200, Status = ''200 OK'',
          Body = \<lparr>bytes = replicate 1048577 (CHR ''x''), failure = None\<rparr>\<rparr>"

section \<open>The loops in closed form\<close>

lemma upstream_loop_eq:
  "upstream_loop C d us f =
     f\<lparr>Require := Require f @ map (merged_entry C d) (filter (same_path d) us)\<rparr>"
  by (induction us arbitrary: f) (simp_all add: AddNewRequire_def merged_entry_def same_path_def)

lemma downstream_loop_eq:
  "downstream_loop C us ds f = f\<lparr>Require := Require f @ merged_requires C us ds\<rparr>"
  by (induction ds arbitrary: f) (simp_all add: upstream_loop_eq merged_requires_def)

lemma AddExclude_eq:
  "AddExclude (Path (ExcludeMod x)) (Version (ExcludeMod x)) f =
     f\<lparr>Exclude := (if x \<in> set (Exclude f) then Exclude f else Exclude f @ [x])\<rparr>"
proof -
  have "list_ex (\<lambda>y. Path (ExcludeMod y) = Path (ExcludeMod x)
                      \<and> Version (ExcludeMod y) = Version (ExcludeMod x)) (Exclude f)
        \<longleftrightarrow> x \<in> set (Exclude f)"
    unfolding list_ex_iff
  proof
    assume "\<exists>y \<in> set (Exclude f). Path (ExcludeMod y) = Path (ExcludeMod x)
                      \<and> Version (ExcludeMod y) = Version (ExcludeMod x)"
    then obtain y where y: "y \<in> set (Exclude f)" "Path (ExcludeMod y) = Path (ExcludeMod x)"
      "Version (ExcludeMod y) = Version (ExcludeMod x)" by blast
    then have "y = x" by simp
    with y(1) show "x \<in> set (Exclude f)" by simp
  next
    assume "x \<in> set (Exclude f)"
    then show "\<exists>y \<in> set (Exclude f). Path (ExcludeMod y) = Path (ExcludeMod x)
                      \<and> Version (ExcludeMod y) = Version (ExcludeMod x)" by blast
  qed
  then show ?thesis by (simp add: AddExclude_def)
qed

lemma exclude_loop_eq: "exclude_loop xs f = f\<lparr>Exclude := added_excludes (Exclude f) xs\<rparr>"
  by (induction xs arbitrary: f) (simp_all add: AddExclude_eq)

lemma module_Version_eta: "\<lparr>Path = Path v, Version = Version v\<rparr> = v"
  by (cases v) simp

lemma AddReplace_eq:
  "AddReplace (Path (Old x)) (Version (Old x)) (Path (New x)) (Version (New x)) f =
     f\<lparr>Replace := addReplace (Old x) (New x) (Replace f)\<rparr>"
  by (simp add: AddReplace_def module_Version_eta)

lemma replace_loop_eq: "replace_loop xs f = f\<lparr>Replace := added_replaces (Replace f) xs\<rparr>"
  by (induction xs arbitrary: f) (simp_all add: AddReplace_eq)

lemma retract_loop_eq: "retract_loop xs f = f\<lparr>Retract := Retract f @ xs\<rparr>"
  by (induction xs arbitrary: f) (simp_all add: AddRetract_def)

lemma separate_walk_seen_all:
  "set (map (\<lambda>r. Path (Mod r)) rs) \<subseteq> set seen \<Longrightarrow> separate_walk req seen rs = []"
  by (induction rs) (simp_all split: option.splits)

lemma SetRequireSeparateIndirect_own:
  "SetRequireSeparateIndirect (Require f) f = f\<lparr>Require := separated (Require f)\<rparr>"
  by (simp add: SetRequireSeparateIndirect_def separated_def separate_walk_seen_all)

lemma Rebase_merge_eq:
  assumes "Go U = Some g" and "Module U = Some m"
  shows "Rebase_merge C U D =
           Inr \<lparr>Module = Some \<lparr>Path = Path m, Version = []\<rparr>, Go = Some g,
                Toolchain = merged_toolchain (Toolchain U),
                Require = separated (merged_requires C (Require U) (Require D)),
                Exclude = added_excludes [] (Exclude U),
                Replace = added_replaces [] (Replace U),
                Retract = Retract U\<rparr>"
  using assms
  by (simp add: Rebase_merge_def newModFile_def AddGoStmt_def AddModuleStmt_def
      AddToolchainStmt_def SetRequireSeparateIndirect_own downstream_loop_eq exclude_loop_eq
      replace_loop_eq retract_loop_eq merged_toolchain_def Let_def split: option.splits)

lemma Rebase_merge_panics:
  assumes "Go U = None \<or> Module U = None"
  shows "Rebase_merge C U D = Inl (Panic ''invalid memory address or nil pointer dereference'')"
  using assms by (auto simp: Rebase_merge_def split: option.splits)


subsection \<open>Requirements after SetRequireSeparateIndirect\<close>

lemma need_of_member:
  assumes "r \<in> set req"
  shows "need_of req (Path (Mod r)) \<noteq> None"
  using assms by (auto simp: need_of_def find_None_iff)

lemma find_unique_key:
  "distinct (map k xs) \<Longrightarrow> x \<in> set xs \<Longrightarrow> find (\<lambda>y. k y = k x) xs = Some x"
  by (induction xs) (auto simp: image_iff)

lemma need_of_distinct:
  assumes "distinct (map (\<lambda>r. Path (Mod r)) req)" and "r \<in> set req"
  shows "need_of req (Path (Mod r)) = Some r"
proof -
  have "distinct (map (\<lambda>r. Path (Mod r)) (rev req))"
    using assms(1) by (simp add: rev_map[symmetric])
  from find_unique_key[OF this, of r] assms(2) show ?thesis
    by (simp add: need_of_def)
qed

lemma dependency_paths_Cons:
  "dependency_paths (r # rs) = insert (Path (Mod r)) (dependency_paths rs)"
  by (simp add: dependency_paths_def)

lemma paths_separate_walk:
  assumes "set rs \<subseteq> set req"
  shows "dependency_paths (separate_walk req seen rs) = dependency_paths rs - set seen"
  using assms
proof (induction rs arbitrary: seen)
  case Nil
  then show ?case by (simp add: dependency_paths_def)
next
  case (Cons r rs)
  from Cons.prems have "r \<in> set req" by simp
  then obtain n where n: "need_of req (Path (Mod r)) = Some n"
    using need_of_member by blast
  have ih: "dependency_paths (separate_walk req s rs) = dependency_paths rs - set s" for s
    using Cons.IH Cons.prems by simp
  show ?case
    by (auto simp: n ih dependency_paths_Cons)
qed

lemma dependency_paths_separated: "dependency_paths (separated rs) = dependency_paths rs"
  using paths_separate_walk[of rs rs "[]"] by (simp add: separated_def)

lemma separate_walk_distinct:
  assumes "distinct (map (\<lambda>r. Path (Mod r)) req)"
    and "set rs \<subseteq> set req"
    and "distinct (map (\<lambda>r. Path (Mod r)) rs)"
    and "dependency_paths rs \<inter> set seen = {}"
  shows "separate_walk req seen rs = rs"
  using assms(2-4)
proof (induction rs arbitrary: seen)
  case Nil
  then show ?case by simp
next
  case (Cons r rs)
  from Cons.prems(1) have n: "need_of req (Path (Mod r)) = Some r"
    using need_of_distinct[OF assms(1)] by simp
  have fresh: "Path (Mod r) \<notin> set seen"
    using Cons.prems(3) by (auto simp: dependency_paths_def)
  have "dependency_paths rs \<inter> set (Path (Mod r) # seen) = {}"
    using Cons.prems(2,3) by (auto simp: dependency_paths_def)
  then have "separate_walk req (Path (Mod r) # seen) rs = rs"
    using Cons.IH Cons.prems(1,2) by simp
  with n fresh show ?case by simp
qed

lemma separated_distinct:
  "distinct (map (\<lambda>r. Path (Mod r)) rs) \<Longrightarrow> separated rs = rs"
  using separate_walk_distinct[of rs rs "[]"] by (simp add: separated_def)

subsection \<open>Excludes and replacements after the copy loops\<close>







subsection \<open>The merged requirement list\<close>

lemma dependency_paths_iff:
  "p \<in> dependency_paths rs \<longleftrightarrow> (\<exists>r \<in> set rs. Path (Mod r) = p)"
  by (auto simp: dependency_paths_def)

lemma set_merged_requires:
  "x \<in> set (merged_requires C us ds) \<longleftrightarrow>
     (\<exists>d \<in> set ds. \<exists>u \<in> set us. same_path d u \<and> x = merged_entry C d u)"
  by (auto simp: merged_requires_def)

lemma Path_merged_entry: "Path (Mod (merged_entry C d u)) = Path (Mod u)"
  by (simp add: merged_entry_def)

lemma dependency_paths_merged:
  "dependency_paths (merged_requires C us ds) = dependency_paths us \<inter> dependency_paths ds"
proof (rule set_eqI)
  fix p
  show "p \<in> dependency_paths (merged_requires C us ds) \<longleftrightarrow>
        p \<in> dependency_paths us \<inter> dependency_paths ds"
  proof
    assume "p \<in> dependency_paths (merged_requires C us ds)"
    then obtain x where x: "x \<in> set (merged_requires C us ds)" "Path (Mod x) = p"
      unfolding dependency_paths_iff by blast
    from x(1) obtain d u where du:
      "d \<in> set ds" "u \<in> set us" "same_path d u" "x = merged_entry C d u"
      unfolding set_merged_requires by blast
    have "Path (Mod u) = p" using x(2) du(4) by (simp add: Path_merged_entry)
    moreover have "Path (Mod d) = p" using calculation du(3) by (simp add: same_path_def)
    ultimately show "p \<in> dependency_paths us \<inter> dependency_paths ds"
      unfolding Int_iff dependency_paths_iff using du(1,2) by blast
  next
    assume "p \<in> dependency_paths us \<inter> dependency_paths ds"
    then obtain u d where ud: "u \<in> set us" "Path (Mod u) = p" "d \<in> set ds" "Path (Mod d) = p"
      unfolding Int_iff dependency_paths_iff by blast
    have "same_path d u" using ud by (simp add: same_path_def)
    then have "merged_entry C d u \<in> set (merged_requires C us ds)"
      unfolding set_merged_requires using ud(1,3) by blast
    moreover have "Path (Mod (merged_entry C d u)) = p"
      using ud(2) by (simp add: Path_merged_entry)
    ultimately show "p \<in> dependency_paths (merged_requires C us ds)"
      unfolding dependency_paths_iff by blast
  qed
qed

lemma filter_unique_key:
  "distinct (map k xs) \<Longrightarrow> x \<in> set xs \<Longrightarrow> filter (\<lambda>y. k y = k x) xs = [x]"
  by (induction xs) (auto simp: filter_empty_conv image_iff)

lemma merged_entry_self: "merged_entry C d d = d"
  by (simp add: merged_entry_def targetVersion_def)

lemma same_path_filter_unique:
  assumes "distinct (map (\<lambda>r. Path (Mod r)) us)" and "d \<in> set us"
  shows "filter (same_path d) us = [d]"
proof -
  have "same_path d = (\<lambda>y. Path (Mod y) = Path (Mod d))"
    by (simp add: fun_eq_iff same_path_def)
  then show ?thesis using filter_unique_key[OF assms] by simp
qed

lemma merged_requires_sublist_self:
  assumes "distinct (map (\<lambda>r. Path (Mod r)) us)" and "set ds \<subseteq> set us"
  shows "merged_requires C us ds = ds"
  using assms(2)
proof (induction ds)
  case Nil
  then show ?case by (simp add: merged_requires_def)
next
  case (Cons d ds)
  then have "filter (same_path d) us = [d]"
    using same_path_filter_unique[OF assms(1)] by simp
  moreover have "merged_requires C us ds = ds" using Cons by simp
  ultimately show ?case
    by (simp add: merged_requires_def merged_entry_self)
qed





subsection \<open>The example inputs\<close>

lemma example_upstream_fields:
  "Go example_upstream = Some ''1.21''"
  "Module example_upstream = Some \<lparr>Path = ''example.com/m'', Version = []\<rparr>"
  "Toolchain example_upstream = Some ''go1.21.5''"
  "Require example_upstream =
     [\<lparr>Mod = \<lparr>Path = ''A'', Version = ''v1.2.0''\<rparr>, Indirect = True\<rparr>,
      \<lparr>Mod = \<lparr>Path = ''B'', Version = ''v2.0.0''\<rparr>, Indirect = False\<rparr>]"
  by (simp_all add: example_upstream_def)

lemma example_downstream_fields:
  "Require example_downstream =
     [\<lparr>Mod = \<lparr>Path = ''A'', Version = ''v1.3.0''\<rparr>, Indirect = False\<rparr>,
      \<lparr>Mod = \<lparr>Path = ''C'', Version = ''v1.0.0''\<rparr>, Indirect = False\<rparr>]"
  "Require example_downstream_variant = Require example_downstream"
  "example_downstream_variant \<noteq> example_downstream"
  by (simp_all add: example_downstream_def example_downstream_variant_def)


section \<open>Rebase: the merged manifest\<close>

text \<open>
  C1. When the upstream manifest has its go and module directives, Rebase builds a merged
  manifest, and the set of dependency paths of its requirements is exactly the intersection
  of the upstream's and the downstream's sets of dependency paths: a path that only one of
  the two inputs has is not in the merged requirements.
\<close>

theorem rebase_paths_are_intersection:
  assumes "Go U = Some g" and "Module U = Some m"
  shows "\<exists>N. Rebase_merge C U D = Inr N
           \<and> dependency_paths (Require N)
               = dependency_paths (Require U) \<inter> dependency_paths (Require D)"
  by (simp add: Rebase_merge_eq[OF assms] dependency_paths_separated dependency_paths_merged)

theorem rebase_paths_are_intersection_witness:
  "Go example_upstream = Some ''1.21''
   \<and> Module example_upstream = Some \<lparr>Path = ''example.com/m'', Version = []\<rparr>
   \<and> (\<exists>N. Rebase_merge example_Compare example_upstream example_downstream = Inr N
           \<and> dependency_paths (Require N) = {''A''})"
proof -
  have g: "Go example_upstream = Some ''1.21''"
    and m: "Module example_upstream = Some \<lparr>Path = ''example.com/m'', Version = []\<rparr>"
    by (simp_all add: example_upstream_fields)
  have "dependency_paths (Require example_upstream) \<inter> dependency_paths (Require example_downstream)
          = {''A''}"
    by (auto simp: dependency_paths_def example_upstream_fields example_downstream_fields)
  with rebase_paths_are_intersection[OF g m, of example_Compare example_downstream] g m
  show ?thesis by simp
qed






text \<open>
  C8. When the upstream manifest has its go and module directives, the merged manifest has
  the upstream's module path and the upstream's go version, and its toolchain is the
  upstream's when that is set and not empty, and absent otherwise.
\<close>

theorem rebase_identity_from_upstream:
  assumes "Go U = Some g" and "Module U = Some m"
  shows "\<exists>N. Rebase_merge C U D = Inr N
           \<and> map_option Path (Module N) = Some (Path m)
           \<and> Go N = Some g
           \<and> Toolchain N = (case Toolchain U of
                               None \<Rightarrow> None
                             | Some name \<Rightarrow> if name \<noteq> [] then Some name else None)"
  by (simp add: Rebase_merge_eq[OF assms] merged_toolchain_def)

theorem rebase_identity_from_upstream_witness:
  "Go example_upstream = Some ''1.21''
   \<and> Module example_upstream = Some \<lparr>Path = ''example.com/m'', Version = []\<rparr>
   \<and> (\<exists>N. Rebase_merge example_Compare example_upstream example_downstream = Inr N
           \<and> map_option Path (Module N) = Some ''example.com/m''
           \<and> Go N = Some ''1.21''
           \<and> Toolchain N = Some ''go1.21.5'')"
proof -
  have g: "Go example_upstream = Some ''1.21''"
    and m: "Module example_upstream = Some \<lparr>Path = ''example.com/m'', Version = []\<rparr>"
    by (simp_all add: example_upstream_fields)
  from rebase_identity_from_upstream[OF g m, of example_Compare example_downstream] g m
  show ?thesis by (simp add: example_upstream_fields)
qed

text \<open>
  C10. A manifest with its go and module directives and unique requirement paths, rebased
  against itself, gives a merged requirement list equal to its own: every dependency path
  once, with the manifest's version and indirect flag.
\<close>

theorem rebase_self_requirements:
  assumes "Go M = Some g" and "Module M = Some m"
    and "distinct (map (\<lambda>r. Path (Mod r)) (Require M))"
  shows "\<exists>N. Rebase_merge C M M = Inr N \<and> Require N = Require M"
  by (simp add: Rebase_merge_eq[OF assms(1,2)] merged_requires_sublist_self[OF assms(3)]
      separated_distinct[OF assms(3)])

theorem rebase_self_requirements_witness:
  "Go example_upstream = Some ''1.21''
   \<and> Module example_upstream = Some \<lparr>Path = ''example.com/m'', Version = []\<rparr>
   \<and> distinct (map (\<lambda>r. Path (Mod r)) (Require example_upstream))
   \<and> (\<exists>N. Rebase_merge example_Compare example_upstream example_upstream = Inr N
           \<and> Require N = [\<lparr>Mod = \<lparr>Path = ''A'', Version = ''v1.2.0''\<rparr>, Indirect = True\<rparr>,
                           \<lparr>Mod = \<lparr>Path = ''B'', Version = ''v2.0.0''\<rparr>, Indirect = False\<rparr>])"
proof -
  have g: "Go example_upstream = Some ''1.21''"
    and m: "Module example_upstream = Some \<lparr>Path = ''example.com/m'', Version = []\<rparr>"
    and dm: "distinct (map (\<lambda>r. Path (Mod r)) (Require example_upstream))"
    by (simp_all add: example_upstream_fields)
  from rebase_self_requirements[OF g m dm, of example_Compare] g m dm
  show ?thesis by (simp add: example_upstream_fields)
qed

section \<open>UpdateChecksums\<close>

lemma print_lines_eq: "print_lines lines outFile = outFile @ text_of lines"
  by (induction lines arbitrary: outFile) (simp_all add: text_of_def Fprintln_def)

lemma checksum_loop_step_ok:
  assumes "lookups_succeed Lookup r"
  shows "checksum_loop Lookup (r # rest) outFile
           = checksum_loop Lookup rest (outFile @ entry_text Lookup r)"
  using assms
  by (auto simp: lookups_succeed_def entry_text_def lines_of_def print_lines_eq Let_def
      split: sum.splits)

lemma checksum_loop_prefix_ok:
  assumes "\<forall>r \<in> set pre. lookups_succeed Lookup r"
  shows "checksum_loop Lookup (pre @ rest) outFile =
         checksum_loop Lookup rest (outFile @ concat (map (entry_text Lookup) pre))"
  using assms
proof (induction pre arbitrary: outFile)
  case Nil
  then show ?case by simp
next
  case (Cons r pre)
  have "checksum_loop Lookup ((r # pre) @ rest) outFile =
        checksum_loop Lookup (pre @ rest) (outFile @ entry_text Lookup r)"
    using Cons.prems checksum_loop_step_ok[of Lookup r "pre @ rest" outFile] by simp
  also have "\<dots> = checksum_loop Lookup rest
                     ((outFile @ entry_text Lookup r) @ concat (map (entry_text Lookup) pre))"
    using Cons.prems by (intro Cons.IH) simp
  finally show ?case by simp
qed

lemma checksum_loop_all_ok:
  assumes "\<forall>r \<in> set rs. lookups_succeed Lookup r"
  shows "checksum_loop Lookup rs outFile = (None, outFile @ concat (map (entry_text Lookup) rs))"
  using checksum_loop_prefix_ok[OF assms, of "[]" outFile] by simp

lemma checksum_loop_step_fail:
  assumes "\<not> lookups_succeed Lookup r"
  shows "\<exists>msg. checksum_loop Lookup (r # rest) outFile =
           (Some (Error (''looking up '' @ Path (Mod r) @ ''/'' @ Version (Mod r) @ msg)),
            outFile @ (if isl (Lookup (Path (Mod r)) (Version (Mod r))) then []
                       else text_of (lines_of Lookup (Path (Mod r)) (Version (Mod r)))))"
proof (cases "Lookup (Path (Mod r)) (Version (Mod r))")
  case (Inl err)
  then show ?thesis by simp
next
  case (Inr lines)
  with assms obtain err where "Lookup (Path (Mod r)) (Version (Mod r) @ ''/go.mod'') = Inl err"
    by (cases "Lookup (Path (Mod r)) (Version (Mod r) @ ''/go.mod'')")
       (auto simp: lookups_succeed_def)
  with Inr show ?thesis
    by (simp add: print_lines_eq lines_of_def)
qed

lemma example_lock_Require:
  "Require example_lock =
     [\<lparr>Mod = \<lparr>Path = ''a'', Version = ''v1.0.0''\<rparr>, Indirect = False\<rparr>]
     @ \<lparr>Mod = \<lparr>Path = ''b'', Version = ''v1.0.0''\<rparr>, Indirect = False\<rparr>
     # [\<lparr>Mod = \<lparr>Path = ''c'', Version = ''v1.0.0''\<rparr>, Indirect = False\<rparr>]"
  by (simp add: example_lock_def)

lemma example_lock_load:
  "loadModFile example_lock_Parse example_fs ''go.mod.local'' = Inr example_lock"
  by (simp add: loadModFile_def os_ReadFile_def example_fs_def example_lock_Parse_def)

text \<open>
  C3. When the requirements before \<open>r\<close> have both lookups answered and a lookup of \<open>r\<close>
  fails, UpdateChecksums returns an error that names the path and version of \<open>r\<close>, and the
  output file holds the lines of the requirements before \<open>r\<close>, followed by the lines of
  the first lookup of \<open>r\<close> when it was the second that failed, and nothing else: whatever
  requirements come after \<open>r\<close>, none of their lines is written.
\<close>

theorem update_checksums_aborts_at_failure:
  assumes "loadModFile Parse fs lockFile = Inr origin"
    and "Require origin = pre @ r # post"
    and "\<forall>x \<in> set pre. lookups_succeed Lookup x"
    and "\<not> lookups_succeed Lookup r"
  shows "\<exists>msg. UpdateChecksums Parse Lookup None fs lockFile outputFile =
           (Some (Error (''looking up '' @ Path (Mod r) @ ''/'' @ Version (Mod r) @ msg)),
            fs(outputFile \<mapsto>
                 concat (map (entry_text Lookup) pre)
                 @ (if isl (Lookup (Path (Mod r)) (Version (Mod r))) then []
                    else text_of (lines_of Lookup (Path (Mod r)) (Version (Mod r))))))"
proof -
  have "checksum_loop Lookup (pre @ r # post) [] =
        checksum_loop Lookup (r # post) (concat (map (entry_text Lookup) pre))"
    using checksum_loop_prefix_ok[OF assms(3), of "r # post" "[]"] by simp
  with checksum_loop_step_fail[OF assms(4), of post "concat (map (entry_text Lookup) pre)"]
  show ?thesis
    by (auto simp: UpdateChecksums_def assms(1,2))
qed

theorem update_checksums_aborts_at_failure_witness:
  "loadModFile example_lock_Parse example_fs ''go.mod.local'' = Inr example_lock
   \<and> lookups_succeed example_Lookup \<lparr>Mod = \<lparr>Path = ''a'', Version = ''v1.0.0''\<rparr>, Indirect = False\<rparr>
   \<and> \<not> lookups_succeed example_Lookup \<lparr>Mod = \<lparr>Path = ''b'', Version = ''v1.0.0''\<rparr>, Indirect = False\<rparr>
   \<and> (\<exists>msg. UpdateChecksums example_lock_Parse example_Lookup None example_fs
                ''go.mod.local'' ''go.sum.local''
              = (Some (Error (''looking up b/v1.0.0'' @ msg)),
                 example_fs(''go.sum.local'' \<mapsto>
                   ''a v1.0.0 h1:0000'' @ [CHR 0x0A] @ ''a v1.0.0/go.mod h1:0000'' @ [CHR 0x0A])))"
proof -
  let ?a = "\<lparr>Mod = \<lparr>Path = ''a'', Version = ''v1.0.0''\<rparr>, Indirect = False\<rparr>"
  let ?b = "\<lparr>Mod = \<lparr>Path = ''b'', Version = ''v1.0.0''\<rparr>, Indirect = False\<rparr>"
  have ok: "\<forall>x \<in> set [?a]. lookups_succeed example_Lookup x"
    and a: "lookups_succeed example_Lookup ?a"
    and b: "\<not> lookups_succeed example_Lookup ?b"
    by (simp_all add: lookups_succeed_def example_Lookup_def)
  have out_a: "concat (map (entry_text example_Lookup) [?a])
               = ''a v1.0.0 h1:0000'' @ [CHR 0x0A] @ ''a v1.0.0/go.mod h1:0000'' @ [CHR 0x0A]"
    by (simp add: entry_text_def lines_of_def text_of_def example_Lookup_def)
  have fails: "isl (example_Lookup (Path (Mod ?b)) (Version (Mod ?b)))"
    by (simp add: example_Lookup_def)
  from update_checksums_aborts_at_failure[OF example_lock_load example_lock_Require ok b,
      of "''go.sum.local''"]
  obtain msg where
    "UpdateChecksums example_lock_Parse example_Lookup None example_fs
        ''go.mod.local'' ''go.sum.local''
     = (Some (Error (''looking up '' @ Path (Mod ?b) @ ''/'' @ Version (Mod ?b) @ msg)),
        example_fs(''go.sum.local'' \<mapsto> concat (map (entry_text example_Lookup) [?a]) @ []))"
    unfolding if_P[OF fails] by blast
  then have "UpdateChecksums example_lock_Parse example_Lookup None example_fs
        ''go.mod.local'' ''go.sum.local''
     = (Some (Error (''looking up b/v1.0.0'' @ msg)),
        example_fs(''go.sum.local'' \<mapsto>
           ''a v1.0.0 h1:0000'' @ [CHR 0x0A] @ ''a v1.0.0/go.mod h1:0000'' @ [CHR 0x0A]))"
    unfolding out_a by simp
  with example_lock_load a b show ?thesis by blast
qed

text \<open>
  C5. When every lookup is answered, UpdateChecksums returns no error and the output file
  holds, for each requirement in the order of the manifest, the lines returned for its path
  and version and then the lines returned for its path and version followed by
  \<open>/go.mod\<close>, each line as returned and in the order returned, and nothing else.
\<close>

theorem update_checksums_output:
  assumes "loadModFile Parse fs lockFile = Inr origin"
    and "\<forall>r \<in> set (Require origin). lookups_succeed Lookup r"
  shows "UpdateChecksums Parse Lookup None fs lockFile outputFile =
           (None,
            fs(outputFile \<mapsto>
                 concat (map (\<lambda>r. text_of (lines_of Lookup (Path (Mod r)) (Version (Mod r)))
                                   @ text_of (lines_of Lookup (Path (Mod r))
                                                (Version (Mod r) @ ''/go.mod'')))
                             (Require origin))))"
proof -
  have "entry_text Lookup =
          (\<lambda>r. text_of (lines_of Lookup (Path (Mod r)) (Version (Mod r)))
                @ text_of (lines_of Lookup (Path (Mod r)) (Version (Mod r) @ ''/go.mod'')))"
    by (simp add: fun_eq_iff entry_text_def)
  with checksum_loop_all_ok[OF assms(2), of "[]"] show ?thesis
    by (simp add: UpdateChecksums_def assms(1))
qed

theorem update_checksums_output_witness:
  "loadModFile example_lock_Parse example_fs ''go.mod.local'' = Inr example_lock
   \<and> UpdateChecksums example_lock_Parse example_Lookup_all None example_fs
        ''go.mod.local'' ''go.sum.local''
      = (None,
         example_fs(''go.sum.local'' \<mapsto>
           ''a v1.0.0 h1:0000'' @ [CHR 0x0A] @ ''a v1.0.0/go.mod h1:0000'' @ [CHR 0x0A]
           @ ''b v1.0.0 h1:0000'' @ [CHR 0x0A] @ ''b v1.0.0/go.mod h1:0000'' @ [CHR 0x0A]
           @ ''c v1.0.0 h1:0000'' @ [CHR 0x0A] @ ''c v1.0.0/go.mod h1:0000'' @ [CHR 0x0A]))"
proof -
  have ok: "\<forall>r \<in> set (Require example_lock). lookups_succeed example_Lookup_all r"
    by (simp add: lookups_succeed_def example_Lookup_all_def)
  from update_checksums_output[OF example_lock_load ok, of "''go.sum.local''"]
  have "UpdateChecksums example_lock_Parse example_Lookup_all None example_fs
        ''go.mod.local'' ''go.sum.local''
      = (None,
         example_fs(''go.sum.local'' \<mapsto>
           ''a v1.0.0 h1:0000'' @ [CHR 0x0A] @ ''a v1.0.0/go.mod h1:0000'' @ [CHR 0x0A]
           @ ''b v1.0.0 h1:0000'' @ [CHR 0x0A] @ ''b v1.0.0/go.mod h1:0000'' @ [CHR 0x0A]
           @ ''c v1.0.0 h1:0000'' @ [CHR 0x0A] @ ''c v1.0.0/go.mod h1:0000'' @ [CHR 0x0A]))"
    by (simp add: example_lock_def lines_of_def text_of_def example_Lookup_all_def)
  with example_lock_load show ?thesis by blast
qed

section \<open>ReadRemote\<close>

lemma ReadRemote_target_eq: "ReadRemote_target path = ''https://sum.golang.org'' @ path"
  by (simp add: ReadRemote_target_def Let_def)

lemma read_limit: "push_bit 20 (1::nat) = 1048576"
  by (simp add: push_bit_eq_mult)

lemma ReadAll_LimitReader:
  "ioutil_ReadAll (io_LimitReader r n) =
     (if n \<le> length (bytes r) then Inr (take n (bytes r))
      else case failure r of None \<Rightarrow> Inr (bytes r) | Some err \<Rightarrow> Inl err)"
  by (simp add: ioutil_ReadAll_def io_LimitReader_def split: option.splits)

text \<open>
  C6. The request goes to \<open>https://sum.golang.org\<close> followed by the given path, the
  server name being the key up to its first \<open>+\<close>. A failure of the request is returned
  as it is; a response whose status code is not 200 gives an error made of the URL and the
  status text; a response with status code 200 whose body is read without error gives the
  first 1048576 bytes of the body; and a body of more than 1048576 bytes gives exactly its
  first 1048576 bytes, as a success.
\<close>

theorem ReadRemote_contract:
  "ReadRemote_target path = ''https://sum.golang.org'' @ path
   \<and> (\<forall>err. http_Get (''https://sum.golang.org'' @ path) = Inl err \<longrightarrow>
          ReadRemote http_Get path = Inl err)
   \<and> (\<forall>resp. http_Get (''https://sum.golang.org'' @ path) = Inr resp \<and> StatusCode resp \<noteq> 200 \<longrightarrow>
          ReadRemote http_Get path
            = Inl (Error (''GET https://sum.golang.org'' @ path @ '': '' @ Status resp)))
   \<and> (\<forall>resp. http_Get (''https://sum.golang.org'' @ path) = Inr resp \<and> StatusCode resp = 200
          \<and> failure (Body resp) = None \<longrightarrow>
          ReadRemote http_Get path = Inr (take 1048576 (bytes (Body resp))))
   \<and> (\<forall>resp. http_Get (''https://sum.golang.org'' @ path) = Inr resp \<and> StatusCode resp = 200
          \<and> 1048576 < length (bytes (Body resp)) \<longrightarrow>
          ReadRemote http_Get path = Inr (take 1048576 (bytes (Body resp)))
          \<and> length (take 1048576 (bytes (Body resp))) = 1048576)"
proof (intro conjI allI impI)
  show "ReadRemote_target path = ''https://sum.golang.org'' @ path"
    by (rule ReadRemote_target_eq)
next
  fix err assume "http_Get (''https://sum.golang.org'' @ path) = Inl err"
  then show "ReadRemote http_Get path = Inl err"
    by (simp add: ReadRemote_def ReadRemote_target_eq)
next
  fix resp
  assume "http_Get (''https://sum.golang.org'' @ path) = Inr resp \<and> StatusCode resp \<noteq> 200"
  then show "ReadRemote http_Get path
               = Inl (Error (''GET https://sum.golang.org'' @ path @ '': '' @ Status resp))"
    by (simp add: ReadRemote_def ReadRemote_target_eq)
next
  fix resp
  assume "http_Get (''https://sum.golang.org'' @ path) = Inr resp \<and> StatusCode resp = 200
          \<and> failure (Body resp) = None"
  then show "ReadRemote http_Get path = Inr (take 1048576 (bytes (Body resp)))"
    by (simp add: ReadRemote_def ReadRemote_target_eq read_limit ReadAll_LimitReader)
next
  fix resp
  assume a: "http_Get (''https://sum.golang.org'' @ path) = Inr resp \<and> StatusCode resp = 200
          \<and> 1048576 < length (bytes (Body resp))"
  then show "ReadRemote http_Get path = Inr (take 1048576 (bytes (Body resp)))"
    by (simp add: ReadRemote_def ReadRemote_target_eq read_limit ReadAll_LimitReader)
  from a show "length (take 1048576 (bytes (Body resp))) = 1048576"
    by simp
qed

theorem ReadRemote_contract_witness:
  "ReadRemote example_unreachable ''/lookup/a@v1.0.0''
     = Inl (Error ''dial tcp: connection refused'')
   \<and> ReadRemote example_not_found ''/lookup/a@v1.0.0''
     = Inl (Error ''GET https://sum.golang.org/lookup/a@v1.0.0: 404 Not Found'')
   \<and> ReadRemote example_oversized ''/lookup/a@v1.0.0'' = Inr (replicate 1048576 (CHR ''x''))"
proof -
  have nf: "example_not_found (''https://sum.golang.org'' @ ''/lookup/a@v1.0.0'')
              = Inr \<lparr>StatusCode = 404, Status = ''404 Not Found'',
                     Body = \<lparr>bytes = ''not found'', failure = None\<rparr>\<rparr>"
    by (simp add: example_not_found_def)
  have ov: "example_oversized (''https://sum.golang.org'' @ ''/lookup/a@v1.0.0'')
              = Inr \<lparr>StatusCode = 200, Status = ''200 OK'',
                     Body = \<lparr>bytes = replicate 1048577 (CHR ''x''), failure = None\<rparr>\<rparr>"
    by (simp add: example_oversized_def)
  have first: "ReadRemote example_unreachable ''/lookup/a@v1.0.0''
          = Inl (Error ''dial tcp: connection refused'')"
    using ReadRemote_contract[of "''/lookup/a@v1.0.0''" example_unreachable]
    by (simp add: example_unreachable_def)
  have second: "ReadRemote example_not_found ''/lookup/a@v1.0.0''
          = Inl (Error ''GET https://sum.golang.org/lookup/a@v1.0.0: 404 Not Found'')"
    using ReadRemote_contract[of "''/lookup/a@v1.0.0''" example_not_found] nf by simp
  have third: "ReadRemote example_oversized ''/lookup/a@v1.0.0''
          = Inr (replicate 1048576 (CHR ''x''))"
    using ReadRemote_contract[of "''/lookup/a@v1.0.0''" example_oversized] ov by simp
  from first second third show ?thesis by simp
qed

section \<open>Rebase: writing the output file\<close>

lemma example_loads:
  "loadModFile example_Parse example_fs ''upstream/go.mod'' = Inr example_upstream"
  "loadModFile example_Parse example_fs ''downstream/go.mod'' = Inr example_downstream"
  by (simp_all add: loadModFile_def os_ReadFile_def example_fs_def example_Parse_def)

lemma example_payload:
  "\<exists>N. Rebase_merge example_Compare example_upstream example_downstream = Inr N
       \<and> example_Format (example_Cleanup N) = Inr (''module example.com/m'' @ [CHR 0x0A])"
  by (simp add: Rebase_merge_eq[OF example_upstream_fields(1,2)] example_Format_def
      example_Cleanup_def)

text \<open>
  C4, as stated, fails: Rebase hands the payload to \<open>os.WriteFile\<close> on the output path
  itself. In the example the complete payload is the line \<open>module example.com/m\<close> (what
  a completed run leaves at the output path); when the write fails after 7 bytes, Rebase
  returns an error and the output path holds the 7 bytes \<open>module \<close>, which is neither
  the previous content nor the payload.
\<close>

theorem rebase_write_not_atomic:
  "Rebase example_Parse example_Compare example_Cleanup example_Format Completes
      example_fs ''upstream/go.mod'' ''downstream/go.mod'' ''go.mod.local''
     = (None, example_fs(''go.mod.local'' \<mapsto> ''module example.com/m'' @ [CHR 0x0A]))
   \<and> Rebase example_Parse example_Compare example_Cleanup example_Format
        (WriteFailsAfter 7 (Error ''write go.mod.local: no space left on device''))
        example_fs ''upstream/go.mod'' ''downstream/go.mod'' ''go.mod.local''
     = (Some (Error ''writing rebased go.mod file: write go.mod.local: no space left on device''),
        example_fs(''go.mod.local'' \<mapsto> ''module ''))
   \<and> \<not> output_intact example_fs
         (snd (Rebase example_Parse example_Compare example_Cleanup example_Format
                 (WriteFailsAfter 7 (Error ''write go.mod.local: no space left on device''))
                 example_fs ''upstream/go.mod'' ''downstream/go.mod'' ''go.mod.local''))
         ''go.mod.local'' (''module example.com/m'' @ [CHR 0x0A])"
proof -
  obtain N where N: "Rebase_merge example_Compare example_upstream example_downstream = Inr N"
    "example_Format (example_Cleanup N) = Inr (''module example.com/m'' @ [CHR 0x0A])"
    using example_payload by blast
  have whole: "Rebase example_Parse example_Compare example_Cleanup example_Format Completes
      example_fs ''upstream/go.mod'' ''downstream/go.mod'' ''go.mod.local''
     = (None, example_fs(''go.mod.local'' \<mapsto> ''module example.com/m'' @ [CHR 0x0A]))"
    by (simp add: Rebase_def example_loads N os_WriteFile_def)
  have cut: "Rebase example_Parse example_Compare example_Cleanup example_Format
        (WriteFailsAfter 7 (Error ''write go.mod.local: no space left on device''))
        example_fs ''upstream/go.mod'' ''downstream/go.mod'' ''go.mod.local''
     = (Some (Error ''writing rebased go.mod file: write go.mod.local: no space left on device''),
        example_fs(''go.mod.local'' \<mapsto> ''module ''))"
    by (simp add: Rebase_def example_loads N os_WriteFile_def)
  have "\<not> output_intact example_fs (example_fs(''go.mod.local'' \<mapsto> ''module ''))
           ''go.mod.local'' (''module example.com/m'' @ [CHR 0x0A])"
    by (simp add: output_intact_def example_fs_def)
  with whole cut show ?thesis by simp
qed

text \<open>
  C4, amended. Once both manifests are loaded, merged and serialized, the outcome of Rebase
  is the outcome of the one \<open>os.WriteFile\<close> call on the output path: when it completes,
  the output path holds the whole payload and Rebase returns no error; when the open fails,
  the file system is unchanged and Rebase returns a writing error; when the write fails after
  \<open>k\<close> bytes, the output path holds the first \<open>k\<close> bytes of the payload and Rebase
  returns a writing error. No other path changes.
\<close>

theorem rebase_write_outcome:
  assumes "loadModFile Parse fs upstreamFile = Inr U"
    and "loadModFile Parse fs downstreamFile = Inr D"
    and "Rebase_merge Compare U D = Inr N"
    and "Format (Cleanup N) = Inr payload"
  shows "Rebase Parse Compare Cleanup Format ev fs upstreamFile downstreamFile outputFile =
           (case ev of
              Completes \<Rightarrow> (None, fs(outputFile \<mapsto> payload))
            | OpenFails err \<Rightarrow>
                (Some (Error (''writing rebased go.mod file: '' @ message err)), fs)
            | WriteFailsAfter k err \<Rightarrow>
                (Some (Error (''writing rebased go.mod file: '' @ message err)),
                 fs(outputFile \<mapsto> take k payload)))"
  by (simp add: Rebase_def assms os_WriteFile_def split: write_event.splits)

theorem rebase_write_outcome_witness:
  "loadModFile example_Parse example_fs ''upstream/go.mod'' = Inr example_upstream
   \<and> loadModFile example_Parse example_fs ''downstream/go.mod'' = Inr example_downstream
   \<and> (\<exists>N. Rebase_merge example_Compare example_upstream example_downstream = Inr N
           \<and> example_Format (example_Cleanup N) = Inr (''module example.com/m'' @ [CHR 0x0A]))
   \<and> Rebase example_Parse example_Compare example_Cleanup example_Format
        (WriteFailsAfter 3 (Error ''write go.mod.local: input/output error''))
        example_fs ''upstream/go.mod'' ''downstream/go.mod'' ''go.mod.local''
      = (Some (Error ''writing rebased go.mod file: write go.mod.local: input/output error''),
         example_fs(''go.mod.local'' \<mapsto> ''mod''))"
proof -
  obtain N where N: "Rebase_merge example_Compare example_upstream example_downstream = Inr N"
    "example_Format (example_Cleanup N) = Inr (''module example.com/m'' @ [CHR 0x0A])"
    using example_payload by blast
  from rebase_write_outcome[where Format = example_Format and Cleanup = example_Cleanup
      and ev = "WriteFailsAfter 3 (Error ''write go.mod.local: input/output error'')"
      and outputFile = "''go.mod.local''", OF example_loads N]
  have "Rebase example_Parse example_Compare example_Cleanup example_Format
        (WriteFailsAfter 3 (Error ''write go.mod.local: input/output error''))
        example_fs ''upstream/go.mod'' ''downstream/go.mod'' ''go.mod.local''
      = (Some (Error ''writing rebased go.mod file: write go.mod.local: input/output error''),
         example_fs(''go.mod.local'' \<mapsto> ''mod''))"
    by simp
  with example_loads example_payload show ?thesis by blast
qed

end
